theory Spec2Isabelle
  imports Complex_Main
begin

section \<open>Compartmental epidemic models: SIRD and SLIRD\<close>

text \<open>
  The repository holds two Dash applications, \<^verbatim>\<open>MODELO_SIRD.py\<close> and
  \<^verbatim>\<open>MODELO_SLIRD.py\<close>. Each defines a derivative function (\<^verbatim>\<open>sird_model\<close>,
  \<^verbatim>\<open>slird_model\<close>) and a callback \<^verbatim>\<open>update_graph\<close> that fixes the initial
  state and the time grid, hands the derivative function to an ODE integrator and
  packages the solution columns as the traces of a figure.
\<close>

subsection \<open>Python floats\<close>

text \<open>
  Every number of the program is a Python float. A float is modelled as a real number
  or one of the three special values of IEEE 754: the two infinities and NaN. The
  arithmetic on the special values is the one of IEEE 754 (NaN is absorbing, the
  difference of equal infinities and the product of zero and an infinity are NaN).
  Rounding and overflow of finite results are not modelled: a finite result is the
  exact real result.
\<close>

datatype pyfloat = Fin real | PosInf | NegInf | NaN

instantiation pyfloat :: "{zero,plus,minus,uminus,times}"
begin

definition zero_pyfloat :: pyfloat where
  "zero_pyfloat = Fin 0"

fun plus_pyfloat :: "pyfloat \<Rightarrow> pyfloat \<Rightarrow> pyfloat" where
  "Fin a + Fin b = Fin (a + b)"
| "Fin a + PosInf = PosInf"
| "Fin a + NegInf = NegInf"
| "Fin a + NaN = NaN"
| "PosInf + Fin b = PosInf"
| "PosInf + PosInf = PosInf"
| "PosInf + NegInf = NaN"
| "PosInf + NaN = NaN"
| "NegInf + Fin b = NegInf"
| "NegInf + PosInf = NaN"
| "NegInf + NegInf = NegInf"
| "NegInf + NaN = NaN"
| "NaN + y = NaN"

fun uminus_pyfloat :: "pyfloat \<Rightarrow> pyfloat" where
  "- Fin a = Fin (- a)"
| "- PosInf = NegInf"
| "- NegInf = PosInf"
| "- NaN = NaN"

definition minus_pyfloat :: "pyfloat \<Rightarrow> pyfloat \<Rightarrow> pyfloat" where
  "x - y = x + (- y)" for x y :: pyfloat

fun times_pyfloat :: "pyfloat \<Rightarrow> pyfloat \<Rightarrow> pyfloat" where
  "Fin a * Fin b = Fin (a * b)"
| "Fin a * PosInf = (if a = 0 then NaN else if 0 < a then PosInf else NegInf)"
| "Fin a * NegInf = (if a = 0 then NaN else if 0 < a then NegInf else PosInf)"
| "Fin a * NaN = NaN"
| "PosInf * Fin b = (if b = 0 then NaN else if 0 < b then PosInf else NegInf)"
| "PosInf * PosInf = PosInf"
| "PosInf * NegInf = NegInf"
| "PosInf * NaN = NaN"
| "NegInf * Fin b = (if b = 0 then NaN else if 0 < b then NegInf else PosInf)"
| "NegInf * PosInf = NegInf"
| "NegInf * NegInf = PosInf"
| "NegInf * NaN = NaN"
| "NaN * y = NaN"

instance ..

end

subsection \<open>Errors\<close>

text \<open>
  \<open>ValueError\<close> is what Python raises when a tuple assignment such as
  \<^verbatim>\<open>S, I, R = y\<close> meets a sequence of another length. \<open>DegenerateGrid\<close> and
  \<open>ContractViolation\<close> are the two failures of the integrator as section 4.2 and
  section 7 of the specification describe them.
\<close>

datatype error = ValueError | DegenerateGrid | ContractViolation

subsection \<open>Derivative functions\<close>

text \<open>
  \<^verbatim>\<open>sird_model(y, t, beta, rho, delta, alpha, lambda_)\<close> of \<^verbatim>\<open>MODELO_SIRD.py\<close>.
  The state \<open>y\<close> is unpacked into exactly three components; the time \<open>t\<close> is not used.
\<close>

definition sird_model ::
  "pyfloat list \<Rightarrow> pyfloat \<Rightarrow> pyfloat \<Rightarrow> pyfloat \<Rightarrow> pyfloat \<Rightarrow> pyfloat \<Rightarrow> pyfloat
     \<Rightarrow> error + pyfloat list" where
  "sird_model y t beta rho delta alpha lambda =
     (case y of
        [S, I, R] \<Rightarrow>
          (let dSdt = alpha - beta * S * I + lambda * R;
               dIdt = beta * S * I - delta * I - rho * I;
               dRdt = rho * I - lambda * R
           in Inr [dSdt, dIdt, dRdt])
      | _ \<Rightarrow> Inl ValueError)"

text \<open>
  \<^verbatim>\<open>slird_model(y, t, beta, rho, delta, alpha, lambda_, gamma)\<close> of
  \<^verbatim>\<open>MODELO_SLIRD.py\<close>, with the latent compartment \<open>L\<close> in second position.
\<close>

definition slird_model ::
  "pyfloat list \<Rightarrow> pyfloat \<Rightarrow> pyfloat \<Rightarrow> pyfloat \<Rightarrow> pyfloat \<Rightarrow> pyfloat \<Rightarrow> pyfloat \<Rightarrow> pyfloat
     \<Rightarrow> error + pyfloat list" where
  "slird_model y t beta rho delta alpha lambda gamma =
     (case y of
        [S, L, I, R] \<Rightarrow>
          (let dSdt = alpha - beta * S * I + lambda * R;
               dLdt = beta * S * I - gamma * L;
               dIdt = gamma * L - delta * I - rho * I;
               dRdt = rho * I - lambda * R
           in Inr [dSdt, dLdt, dIdt, dRdt])
      | _ \<Rightarrow> Inl ValueError)"

text \<open>
  The population mass of a state or rate vector: the sum of its components, added
  from left to right starting at zero as Python's \<^verbatim>\<open>sum\<close> does.
\<close>

definition total :: "pyfloat list \<Rightarrow> pyfloat" where
  "total ys = foldl (+) 0 ys"

subsection \<open>Time grid\<close>

text \<open>
  Modelled from the spec: the constructor of the TimeGrid. The source builds the grid
  with \<^verbatim>\<open>np.linspace(0, 160, 160)\<close>, a function of numpy that is not under
  \<^verbatim>\<open>src/\<close>. The specification defines a grid by \<open>(start, end, sample_count)\<close> as
  \<open>sample_count\<close> evenly spaced points over \<open>[start, end]\<close>: point \<open>i\<close> is
  \<open>start + i * (end - start) / (sample_count - 1)\<close> and the last point is \<open>end\<close>
  itself. The grid is built from integer literals, so its points are finite and are
  kept as real numbers.
\<close>

definition linspace :: "real \<Rightarrow> real \<Rightarrow> nat \<Rightarrow> real list" where
  "linspace start stop num =
     (if num = 0 then []
      else if num = 1 then [start]
      else map (\<lambda>i. start + real i * ((stop - start) / real (num - 1))) [0..<num - 1]
             @ [stop])"

subsection \<open>Integrator\<close>

type_synonym rhs = "pyfloat list \<Rightarrow> pyfloat \<Rightarrow> error + pyfloat list"

type_synonym integrator = "rhs \<Rightarrow> pyfloat list \<Rightarrow> real list \<Rightarrow> error + pyfloat list list"

definition vadd :: "pyfloat list \<Rightarrow> pyfloat list \<Rightarrow> pyfloat list" where
  "vadd xs ys = map2 (+) xs ys"

definition smul :: "real \<Rightarrow> pyfloat list \<Rightarrow> pyfloat list" where
  "smul a xs = map (\<lambda>x. Fin a * x) xs"

text \<open>
  One evaluation of the derivative function by the integrator. An error raised by the
  derivative function is passed on; a rate vector whose dimension differs from the
  state's violates the contract of section 4.1.
\<close>

definition rate :: "rhs \<Rightarrow> pyfloat list \<Rightarrow> real \<Rightarrow> error + pyfloat list" where
  "rate f y t =
     (case f y (Fin t) of
        Inl e \<Rightarrow> Inl e
      | Inr k \<Rightarrow> if length k = length y then Inr k else Inl ContractViolation)"

text \<open>
  Modelled from the spec: one step of the integrator. The source integrates with
  \<^verbatim>\<open>scipy.integrate.odeint\<close>, which is not under \<^verbatim>\<open>src/\<close>; section 4.2 of the
  specification accepts a fixed-step Runge-Kutta method of order four in its place.
  The step from \<open>t0\<close> to \<open>t1\<close> is the classical one, with \<open>h = t1 - t0\<close>:
  \<open>y + h/6 * (k1 + 2 k2 + 2 k3 + k4)\<close>.
\<close>

definition rk4_step :: "rhs \<Rightarrow> pyfloat list \<Rightarrow> real \<Rightarrow> real \<Rightarrow> error + pyfloat list" where
  "rk4_step f y t0 t1 =
     (let h = t1 - t0 in
      case rate f y t0 of
        Inl e \<Rightarrow> Inl e
      | Inr k1 \<Rightarrow>
     (case rate f (vadd y (smul (h / 2) k1)) (t0 + h / 2) of
        Inl e \<Rightarrow> Inl e
      | Inr k2 \<Rightarrow>
     (case rate f (vadd y (smul (h / 2) k2)) (t0 + h / 2) of
        Inl e \<Rightarrow> Inl e
      | Inr k3 \<Rightarrow>
     (case rate f (vadd y (smul h k3)) t1 of
        Inl e \<Rightarrow> Inl e
      | Inr k4 \<Rightarrow>
          Inr (vadd y (smul (h / 6)
                 (vadd (vadd k1 (smul 2 k2)) (vadd (smul 2 k3) k4))))))))"

text \<open>The states at the grid points after \<open>t0\<close>, each one step from the one before.\<close>

fun rk4_steps :: "rhs \<Rightarrow> pyfloat list \<Rightarrow> real \<Rightarrow> real list \<Rightarrow> error + pyfloat list list" where
  "rk4_steps f y t0 [] = Inr []"
| "rk4_steps f y t0 (t1 # ts) =
     (case rk4_step f y t0 t1 of
        Inl e \<Rightarrow> Inl e
      | Inr y1 \<Rightarrow>
          (case rk4_steps f y1 t1 ts of
             Inl e \<Rightarrow> Inl e
           | Inr ys \<Rightarrow> Inr (y1 # ys)))"

text \<open>
  Modelled from the spec: the ODE integrator of section 4.2, in the place of
  \<^verbatim>\<open>scipy.integrate.odeint\<close>. It takes the derivative function (closed over the
  parameters), the initial state and the time grid. A grid of fewer than two points or
  one that is not strictly increasing is refused (\<open>DegenerateGrid\<close>, section 7).
  Otherwise the result holds one state per grid point in grid order; the first is the
  initial state itself, on which no step is taken.
\<close>

definition odeint :: integrator where
  "odeint f y0 ts =
     (case ts of
        t0 # t1 # rest \<Rightarrow>
          if sorted_wrt (<) ts then
            (case rk4_steps f y0 t0 (t1 # rest) of
               Inl e \<Rightarrow> Inl e
             | Inr ys \<Rightarrow> Inr (y0 # ys))
          else Inl DegenerateGrid
      | _ \<Rightarrow> Inl DegenerateGrid)"

subsection \<open>Figures\<close>

text \<open>
  A trace of the figure: the abscissae \<^verbatim>\<open>x\<close>, the ordinates \<^verbatim>\<open>y\<close>, the
  legend entry \<^verbatim>\<open>name\<close> and the colour of the line. The layout of the figure
  (titles of the axes, background colours, legend box) is constant and only its title
  is kept.
\<close>

record trace =
  trace_x :: "real list"
  trace_y :: "pyfloat list"
  trace_name :: string
  trace_color :: string

record figure =
  fig_data :: "trace list"
  fig_title :: string

subsection \<open>Simulation drivers\<close>

text \<open>
  The second half of \<^verbatim>\<open>update_graph\<close> of \<^verbatim>\<open>MODELO_SIRD.py\<close>: the solution is
  transposed, \<^verbatim>\<open>S, I, R = solution.T\<close> unpacks exactly three columns, and each
  column becomes a trace over the grid.
\<close>

definition sird_figure :: "real list \<Rightarrow> pyfloat list list \<Rightarrow> error + figure" where
  "sird_figure t solution =
     (case transpose solution of
        [S, I, R] \<Rightarrow>
          Inr \<lparr>fig_data =
                 [\<lparr>trace_x = t, trace_y = S, trace_name = ''Susceptibles'',
                   trace_color = ''#1f77b4''\<rparr>,
                  \<lparr>trace_x = t, trace_y = I, trace_name = ''Infectados'',
                   trace_color = ''#ff7f0e''\<rparr>,
                  \<lparr>trace_x = t, trace_y = R, trace_name = ''Recuperados'',
                   trace_color = ''#2ca02c''\<rparr>],
               fig_title = ''Modelo SIRD''\<rparr>
      | _ \<Rightarrow> Inl ValueError)"

text \<open>
  \<^verbatim>\<open>update_graph(beta, rho, delta, alpha, lambda_)\<close> of \<^verbatim>\<open>MODELO_SIRD.py\<close>; the
  callbacks of the two files have the same name and are told apart here by the name
  of their model. The integrator is the first argument: the source calls
  \<^verbatim>\<open>odeint\<close> of scipy. The literals \<^verbatim>\<open>0.99\<close> and \<^verbatim>\<open>0.01\<close> are read as the
  decimal fractions they denote. The callback tests none of its arguments.
\<close>

definition sird_update_graph ::
  "integrator \<Rightarrow> pyfloat \<Rightarrow> pyfloat \<Rightarrow> pyfloat \<Rightarrow> pyfloat \<Rightarrow> pyfloat \<Rightarrow> error + figure" where
  "sird_update_graph solver beta rho delta alpha lambda =
     (let S0 = Fin (99 / 100); I0 = Fin (1 / 100); R0 = Fin 0;
          y0 = [S0, I0, R0];
          t = linspace 0 160 160
      in case solver (\<lambda>y t. sird_model y t beta rho delta alpha lambda) y0 t of
           Inl e \<Rightarrow> Inl e
         | Inr solution \<Rightarrow> sird_figure t solution)"

text \<open>
  The second half of \<^verbatim>\<open>update_graph\<close> of \<^verbatim>\<open>MODELO_SLIRD.py\<close>:
  \<^verbatim>\<open>S, L, I, R = solution.T\<close> unpacks exactly four columns, added to the figure as
  four traces.
\<close>

definition slird_figure :: "real list \<Rightarrow> pyfloat list list \<Rightarrow> error + figure" where
  "slird_figure t solution =
     (case transpose solution of
        [S, L, I, R] \<Rightarrow>
          Inr \<lparr>fig_data =
                 [\<lparr>trace_x = t, trace_y = S, trace_name = ''Susceptibles'',
                   trace_color = ''#1f77b4''\<rparr>,
                  \<lparr>trace_x = t, trace_y = L, trace_name = ''Latentes'',
                   trace_color = ''#ff7f0e''\<rparr>,
                  \<lparr>trace_x = t, trace_y = I, trace_name = ''Infectados'',
                   trace_color = ''#d62728''\<rparr>,
                  \<lparr>trace_x = t, trace_y = R, trace_name = ''Recuperados'',
                   trace_color = ''#2ca02c''\<rparr>],
               fig_title = ''Modelo SLIRD''\<rparr>
      | _ \<Rightarrow> Inl ValueError)"

text \<open>
  \<^verbatim>\<open>update_graph(beta, rho, delta, alpha, lambda_, gamma)\<close> of
  \<^verbatim>\<open>MODELO_SLIRD.py\<close>, with the integrator as first argument.
\<close>

definition slird_update_graph ::
  "integrator \<Rightarrow> pyfloat \<Rightarrow> pyfloat \<Rightarrow> pyfloat \<Rightarrow> pyfloat \<Rightarrow> pyfloat \<Rightarrow> pyfloat
     \<Rightarrow> error + figure" where
  "slird_update_graph solver beta rho delta alpha lambda gamma =
     (let S0 = Fin (99 / 100); L0 = Fin 0; I0 = Fin (1 / 100); R0 = Fin 0;
          y0 = [S0, L0, I0, R0];
          t = linspace 0 160 160
      in case solver (\<lambda>y t. slird_model y t beta rho delta alpha lambda gamma) y0 t of
           Inl e \<Rightarrow> Inl e
         | Inr solution \<Rightarrow> slird_figure t solution)"

subsection \<open>Sets of states kept by a derivative function\<close>

text \<open>
  A set \<open>P\<close> of states and a set \<open>K\<close> of rate vectors fit a derivative function \<open>f\<close>
  when \<open>f\<close> maps every state of \<open>P\<close> to a rate vector of \<open>K\<close> of the same dimension,
  a state of \<open>P\<close> moved along a rate vector of \<open>K\<close> stays in \<open>P\<close>, and \<open>K\<close> is closed
  under sums and multiples.
\<close>

definition fits :: "rhs \<Rightarrow> (pyfloat list \<Rightarrow> bool) \<Rightarrow> (pyfloat list \<Rightarrow> bool) \<Rightarrow> bool" where
  "fits f P K \<longleftrightarrow>
     (\<forall>y t. P y \<longrightarrow> (\<exists>k. f y t = Inr k \<and> K k \<and> length k = length y)) \<and>
     (\<forall>y k a. P y \<and> K k \<longrightarrow> P (vadd y (smul a k))) \<and>
     (\<forall>k k'. K k \<and> K k' \<longrightarrow> K (vadd k k')) \<and>
     (\<forall>k a. K k \<longrightarrow> K (smul a k))"

section \<open>Basic facts on float arithmetic\<close>


lemma Fin_minus [simp]: "Fin a - Fin b = Fin (a - b)"
  by (simp add: minus_pyfloat_def)

lemma zero_pyfloat_Fin [simp]: "(0::pyfloat) = Fin 0"
  by (simp add: zero_pyfloat_def)

lemma plus_NaN [simp]: "x + NaN = NaN"
  by (cases x) simp_all

lemma times_NaN [simp]: "x * NaN = NaN"
  by (cases x) simp_all

lemma minus_NaN [simp]: "x - NaN = NaN" "NaN - x = NaN"
  by (simp_all add: minus_pyfloat_def)

lemma vadd_3 [simp]: "vadd [a, b, c] [a', b', c'] = [a + a', b + b', c + c']"
  by (simp add: vadd_def)

lemma smul_3 [simp]: "smul x [a, b, c] = [Fin x * a, Fin x * b, Fin x * c]"
  by (simp add: smul_def)

lemma vadd_4 [simp]: "vadd [a, b, c, d] [a', b', c', d'] = [a + a', b + b', c + c', d + d']"
  by (simp add: vadd_def)

lemma smul_4 [simp]: "smul x [a, b, c, d] = [Fin x * a, Fin x * b, Fin x * c, Fin x * d]"
  by (simp add: smul_def)

subsection \<open>Failures\<close>

text \<open>
  A state of the wrong dimension makes the derivative function raise, and a grid of
  fewer than two points or one that is not strictly increasing makes the integrator
  refuse the request.
\<close>

lemma sird_model_wrong_dimension:
  "length y \<noteq> 3 \<Longrightarrow> sird_model y t beta rho delta alpha lambda = Inl ValueError"
  by (auto simp: sird_model_def split: list.splits)

lemma slird_model_wrong_dimension:
  "length y \<noteq> 4 \<Longrightarrow> slird_model y t beta rho delta alpha lambda gamma = Inl ValueError"
  by (auto simp: slird_model_def split: list.splits)

lemma odeint_degenerate_grid:
  "length ts < 2 \<Longrightarrow> odeint f y0 ts = Inl DegenerateGrid"
  by (auto simp: odeint_def split: list.splits)

lemma odeint_unordered_grid:
  "\<not> sorted_wrt (<) ts \<Longrightarrow> odeint f y0 ts = Inl DegenerateGrid"
  by (auto simp: odeint_def split: list.splits)

subsection \<open>Invariants of the integrator\<close>

text \<open>
  When \<open>P\<close> and \<open>K\<close> fit the derivative function, the integrator never fails from a
  state of \<open>P\<close> and every state it returns is in \<open>P\<close>.
\<close>

lemma length_vadd [simp]: "length (vadd xs ys) = min (length xs) (length ys)"
  by (simp add: vadd_def)

lemma length_smul [simp]: "length (smul a xs) = length xs"
  by (simp add: smul_def)

lemma rate_fits:
  assumes "fits f P K" "P y"
  shows "\<exists>k. rate f y t = Inr k \<and> K k"
proof -
  from assms obtain k where "f y (Fin t) = Inr k" "K k" "length k = length y"
    unfolding fits_def by blast
  then show ?thesis by (simp add: rate_def)
qed

lemma fits_move: "fits f P K \<Longrightarrow> P y \<Longrightarrow> K k \<Longrightarrow> P (vadd y (smul a k))"
  unfolding fits_def by blast

lemma fits_vadd: "fits f P K \<Longrightarrow> K k \<Longrightarrow> K k' \<Longrightarrow> K (vadd k k')"
  unfolding fits_def by blast

lemma fits_smul: "fits f P K \<Longrightarrow> K k \<Longrightarrow> K (smul a k)"
  unfolding fits_def by blast

lemma rk4_step_fits:
  assumes f: "fits f P K" and y: "P y"
  shows "\<exists>y1. rk4_step f y t0 t1 = Inr y1 \<and> P y1"
proof -
  define h where "h = t1 - t0"
  from rate_fits [OF f y] obtain k1 where k1: "rate f y t0 = Inr k1" "K k1"
    by blast
  have "P (vadd y (smul (h / 2) k1))" using f y k1(2) by (rule fits_move)
  from rate_fits [OF f this] obtain k2
    where k2: "rate f (vadd y (smul (h / 2) k1)) (t0 + h / 2) = Inr k2" "K k2"
    by blast
  have "P (vadd y (smul (h / 2) k2))" using f y k2(2) by (rule fits_move)
  from rate_fits [OF f this] obtain k3
    where k3: "rate f (vadd y (smul (h / 2) k2)) (t0 + h / 2) = Inr k3" "K k3"
    by blast
  have "P (vadd y (smul h k3))" using f y k3(2) by (rule fits_move)
  from rate_fits [OF f this] obtain k4
    where k4: "rate f (vadd y (smul h k3)) t1 = Inr k4" "K k4"
    by blast
  have "K (smul 2 k2)" using f k2(2) by (rule fits_smul)
  with f k1(2) have a: "K (vadd k1 (smul 2 k2))" by (rule fits_vadd)
  have "K (smul 2 k3)" using f k3(2) by (rule fits_smul)
  with f have b: "K (vadd (smul 2 k3) k4)" using k4(2) by (rule fits_vadd)
  from f a b have "K (vadd (vadd k1 (smul 2 k2)) (vadd (smul 2 k3) k4))"
    by (rule fits_vadd)
  with f y
  have "P (vadd y (smul (h / 6) (vadd (vadd k1 (smul 2 k2)) (vadd (smul 2 k3) k4))))"
    by (rule fits_move)
  then show ?thesis
    using k1 k2 k3 k4 by (simp add: rk4_step_def Let_def h_def [symmetric])
qed

lemma rk4_steps_fits:
  assumes f: "fits f P K"
  shows "P y \<Longrightarrow>
    \<exists>ys. rk4_steps f y t0 ts = Inr ys \<and> length ys = length ts \<and> (\<forall>row\<in>set ys. P row)"
proof (induction ts arbitrary: y t0)
  case Nil
  then show ?case by simp
next
  case (Cons t1 ts)
  from rk4_step_fits [OF f Cons.prems] obtain y1
    where y1: "rk4_step f y t0 t1 = Inr y1" "P y1" by blast
  from Cons.IH [OF y1(2)] obtain ys
    where ys: "rk4_steps f y1 t1 ts = Inr ys" "length ys = length ts"
      "\<forall>row\<in>set ys. P row" by blast
  show ?case using y1 ys by simp
qed

lemma odeint_fits:
  assumes f: "fits f P K"
    and y0: "P y0"
    and ts: "2 \<le> length ts" "sorted_wrt (<) ts"
  shows "\<exists>ys. odeint f y0 ts = Inr (y0 # ys) \<and> Suc (length ys) = length ts \<and>
           (\<forall>row\<in>set (y0 # ys). P row)"
proof -
  from ts(1) obtain t0 t1 rest where eq: "ts = t0 # t1 # rest"
    by (cases ts; cases "tl ts") auto
  from rk4_steps_fits [OF f y0] obtain ys
    where ys: "rk4_steps f y0 t0 (t1 # rest) = Inr ys" "length ys = length (t1 # rest)"
      "\<forall>row\<in>set ys. P row"
    by blast
  show ?thesis using ys ts(2) y0 unfolding eq odeint_def by simp
qed

subsection \<open>Dimension\<close>

lemma sird_fits_dimension:
  "fits (\<lambda>y t. sird_model y t beta rho delta alpha lambda)
     (\<lambda>y. length y = 3) (\<lambda>k. length k = 3)"
  unfolding fits_def
  by (auto simp: sird_model_def Let_def length_Suc_conv numeral_3_eq_3)

lemma slird_fits_dimension:
  "fits (\<lambda>y t. slird_model y t beta rho delta alpha lambda gamma)
     (\<lambda>y. length y = 4) (\<lambda>k. length k = 4)"
  unfolding fits_def
  by (auto simp: slird_model_def Let_def length_Suc_conv eval_nat_numeral)

subsection \<open>Grid and figure\<close>

lemma length_linspace [simp]: "length (linspace a b n) = n"
  by (simp add: linspace_def)

lemma sorted_linspace:
  assumes "a < b" "2 \<le> n"
  shows "sorted_wrt (<) (linspace a b n)"
proof -
  define d where "d = (b - a) / real (n - 1)"
  have d: "0 < d" using assms by (simp add: d_def)
  have n1: "real (n - 1) * d = b - a" using assms by (simp add: d_def)
  have inner: "sorted_wrt (<) (map (\<lambda>i. a + real i * d) [0..<n - 1])"
    using d by (simp add: sorted_wrt_map sorted_wrt_upt)  
  have last: "\<forall>i<n - 1. a + real i * d < b"
  proof (intro allI impI)
    fix i assume "i < n - 1"
    then have "real i * d < real (n - 1) * d" using d by simp
    then show "a + real i * d < b" using n1 by simp
  qed
  have "linspace a b n = map (\<lambda>i. a + real i * d) [0..<n - 1] @ [b]"
    using assms by (simp add: linspace_def d_def)
  then show ?thesis
    using inner last by (auto simp: sorted_wrt_append)
qed

lemma transpose_rows:
  assumes "xs \<noteq> []" "\<forall>row\<in>set xs. length row = n"
  shows "transpose xs = map (\<lambda>i. map (\<lambda>row. row ! i) xs) [0..<n]"
proof -
  have "transpose xs = map (\<lambda>i. map (\<lambda>j. xs ! j ! i) [0..<length xs]) [0..<n]"
  proof (rule transpose_rectangle)
    show "xs = [] \<Longrightarrow> n = 0" using assms(1) by simp
    show "length (xs ! i) = n" if "i < length xs" for i
      using assms(2) that by simp
  qed
  moreover have "map (\<lambda>j. xs ! j ! i) [0..<length xs] = map (\<lambda>row. row ! i) xs" for i
    by (rule nth_equalityI) simp_all
  ultimately show ?thesis by simp
qed

lemma upt_3: "[0..<3] = [0, 1, 2]"
  by (simp add: upt_rec)

lemma upt_4: "[0..<4] = [0, 1, 2, 3]"
  by (simp add: upt_rec)

lemma sird_figure_rows:
  assumes "sol \<noteq> []" "\<forall>row\<in>set sol. length row = 3"
  shows "sird_figure t sol =
    Inr \<lparr>fig_data =
           [\<lparr>trace_x = t, trace_y = map (\<lambda>row. row ! 0) sol, trace_name = ''Susceptibles'',
             trace_color = ''#1f77b4''\<rparr>,
            \<lparr>trace_x = t, trace_y = map (\<lambda>row. row ! 1) sol, trace_name = ''Infectados'',
             trace_color = ''#ff7f0e''\<rparr>,
            \<lparr>trace_x = t, trace_y = map (\<lambda>row. row ! 2) sol, trace_name = ''Recuperados'',
             trace_color = ''#2ca02c''\<rparr>],
          fig_title = ''Modelo SIRD''\<rparr>"
  unfolding sird_figure_def transpose_rows [OF assms] upt_3 by simp

lemma slird_figure_rows:
  assumes "sol \<noteq> []" "\<forall>row\<in>set sol. length row = 4"
  shows "slird_figure t sol =
    Inr \<lparr>fig_data =
           [\<lparr>trace_x = t, trace_y = map (\<lambda>row. row ! 0) sol, trace_name = ''Susceptibles'',
             trace_color = ''#1f77b4''\<rparr>,
            \<lparr>trace_x = t, trace_y = map (\<lambda>row. row ! 1) sol, trace_name = ''Latentes'',
             trace_color = ''#ff7f0e''\<rparr>,
            \<lparr>trace_x = t, trace_y = map (\<lambda>row. row ! 2) sol, trace_name = ''Infectados'',
             trace_color = ''#d62728''\<rparr>,
            \<lparr>trace_x = t, trace_y = map (\<lambda>row. row ! 3) sol, trace_name = ''Recuperados'',
             trace_color = ''#2ca02c''\<rparr>],
          fig_title = ''Modelo SLIRD''\<rparr>"
  unfolding slird_figure_def transpose_rows [OF assms] upt_4 by simp

lemma grid_ok: "2 \<le> length (linspace 0 160 160) \<and> sorted_wrt (<) (linspace 0 160 160)"
  by (simp add: sorted_linspace)

lemma sird_update_graph_odeint:
  "\<exists>ys. length ys = 159 \<and>
     sird_update_graph odeint beta rho delta alpha lambda =
       sird_figure (linspace 0 160 160) ([Fin (99 / 100), Fin (1 / 100), Fin 0] # ys) \<and>
     (\<forall>row\<in>set ys. length row = 3)"
proof -
  let ?f = "\<lambda>y t. sird_model y t beta rho delta alpha lambda"
  let ?y0 = "[Fin (99 / 100), Fin (1 / 100), Fin 0]"
  have "\<exists>ys. odeint ?f ?y0 (linspace 0 160 160) = Inr (?y0 # ys) \<and>
          Suc (length ys) = length (linspace 0 160 160) \<and>
          (\<forall>row\<in>set (?y0 # ys). length row = 3)"
    using grid_ok by (intro odeint_fits [OF sird_fits_dimension]) simp_all
  then obtain ys where "odeint ?f ?y0 (linspace 0 160 160) = Inr (?y0 # ys)"
    "length ys = 159" "\<forall>row\<in>set ys. length row = 3"
    by auto
  then show ?thesis
    by (intro exI [of _ ys]) (simp add: sird_update_graph_def)
qed

lemma slird_update_graph_odeint:
  "\<exists>ys. length ys = 159 \<and>
     slird_update_graph odeint beta rho delta alpha lambda gamma =
       slird_figure (linspace 0 160 160) ([Fin (99 / 100), Fin 0, Fin (1 / 100), Fin 0] # ys) \<and>
     (\<forall>row\<in>set ys. length row = 4)"
proof -
  let ?f = "\<lambda>y t. slird_model y t beta rho delta alpha lambda gamma"
  let ?y0 = "[Fin (99 / 100), Fin 0, Fin (1 / 100), Fin 0]"
  have "\<exists>ys. odeint ?f ?y0 (linspace 0 160 160) = Inr (?y0 # ys) \<and>
          Suc (length ys) = length (linspace 0 160 160) \<and>
          (\<forall>row\<in>set (?y0 # ys). length row = 4)"
    using grid_ok by (intro odeint_fits [OF slird_fits_dimension]) simp_all
  then obtain ys where "odeint ?f ?y0 (linspace 0 160 160) = Inr (?y0 # ys)"
    "length ys = 159" "\<forall>row\<in>set ys. length row = 4"
    by auto
  then show ?thesis
    by (intro exI [of _ ys]) (simp add: slird_update_graph_def)
qed

lemma hd_linspace: "0 < n \<Longrightarrow> hd (linspace a b n) = a"
  by (cases "n = 1") (auto simp: linspace_def hd_append hd_map upt_rec [of 0])

lemma last_linspace: "2 \<le> n \<Longrightarrow> last (linspace a b n) = b"
  by (simp add: linspace_def)

lemma linspace_formula:
  assumes "2 \<le> n"
  shows "linspace 0 b n = map (\<lambda>i. real i * (b / real (n - 1))) [0..<n]"
proof -
  from assms obtain m where n: "n = Suc m" and m: "0 < m"
    by (cases n) auto
  show ?thesis using m by (simp add: linspace_def n)
qed

lemma differences_even:
  "map2 (-) (tl (map (\<lambda>i. real i * d) [0..<n])) (butlast (map (\<lambda>i. real i * d) [0..<n])) =
     replicate (n - 1) d"
proof (rule nth_equalityI)
  show "length (map2 (-) (tl (map (\<lambda>i. real i * d) [0..<n]))
          (butlast (map (\<lambda>i. real i * d) [0..<n]))) = length (replicate (n - 1) d)"
    by simp
next
  fix i
  assume "i < length (map2 (-) (tl (map (\<lambda>i. real i * d) [0..<n]))
          (butlast (map (\<lambda>i. real i * d) [0..<n])))"
  then have i: "Suc i < n" by simp
  then have "[0..<n] ! Suc i = Suc i" "[0..<n] ! i = i" by simp_all
  with i show "map2 (-) (tl (map (\<lambda>i. real i * d) [0..<n]))
          (butlast (map (\<lambda>i. real i * d) [0..<n])) ! i = replicate (n - 1) d ! i"
    by (simp add: nth_tl nth_butlast algebra_simps)
qed




subsection \<open>Trajectories of the integrator\<close>









section \<open>The derivative functions\<close>

text \<open>
  Claim C1. For every state \<open>(S, I, R)\<close>, every time and all parameters, the SIRD
  derivative function returns the vector
  \<open>(alpha - beta S I + lambda R, beta S I - delta I - rho I, rho I - lambda R)\<close>,
  in that order. The statement covers every float, the special values included.
\<close>

theorem sird_model_law:
  "sird_model [S, I, R] t beta rho delta alpha lambda =
     Inr [alpha - beta * S * I + lambda * R,
          beta * S * I - delta * I - rho * I,
          rho * I - lambda * R]"
  by (simp add: sird_model_def)

text \<open>
  Claim C2. For every state \<open>(S, L, I, R)\<close>, every time and all parameters, the SLIRD
  derivative function returns the vector
  \<open>(alpha - beta S I + lambda R, beta S I - gamma L, gamma L - delta I - rho I,
  rho I - lambda R)\<close>, in that order.
\<close>

theorem slird_model_law:
  "slird_model [S, L, I, R] t beta rho delta alpha lambda gamma =
     Inr [alpha - beta * S * I + lambda * R,
          beta * S * I - gamma * L,
          gamma * L - delta * I - rho * I,
          rho * I - lambda * R]"
  by (simp add: slird_model_def)







section \<open>The simulation drivers\<close>

text \<open>
  Claim C9. For every simulation request the time grid is an ordered, strictly
  increasing sequence of exactly 160 evenly spaced points that starts at 0 and ends at
  160: point \<open>i\<close> is \<open>i * 160 / 159\<close>, consecutive points differ by \<open>160 / 159\<close>, and
  this grid is the abscissa of every trace of the figure, whatever the parameters.
\<close>

theorem time_grid_even:
  "length (linspace 0 160 160) = 160 \<and>
   hd (linspace 0 160 160) = 0 \<and>
   last (linspace 0 160 160) = 160 \<and>
   sorted_wrt (<) (linspace 0 160 160) \<and>
   linspace 0 160 160 = map (\<lambda>i. real i * (160 / 159)) [0..<160] \<and>
   map2 (-) (tl (linspace 0 160 160)) (butlast (linspace 0 160 160)) =
     replicate 159 (160 / 159) \<and>
   (\<exists>fig. sird_update_graph odeint beta rho delta alpha lambda = Inr fig \<and>
      map trace_x (fig_data fig) = replicate 3 (linspace 0 160 160)) \<and>
   (\<exists>fig. slird_update_graph odeint beta rho delta alpha lambda gamma = Inr fig \<and>
      map trace_x (fig_data fig) = replicate 4 (linspace 0 160 160))"
proof -
  have f: "linspace 0 160 160 = map (\<lambda>i. real i * (160 / 159)) [0..<160]"
    using linspace_formula [of 160 160] by simp
  have d: "map2 (-) (tl (linspace 0 160 160)) (butlast (linspace 0 160 160)) =
     replicate 159 (160 / 159)"
    unfolding f using differences_even [of "160 / 159" 160] by simp
  from sird_update_graph_odeint [of beta rho delta alpha lambda] obtain ys
    where ys: "length ys = 159" "\<forall>row\<in>set ys. length row = 3"
      and eq: "sird_update_graph odeint beta rho delta alpha lambda =
        sird_figure (linspace 0 160 160) ([Fin (99 / 100), Fin (1 / 100), Fin 0] # ys)"
    by blast
  have sird: "\<exists>fig. sird_update_graph odeint beta rho delta alpha lambda = Inr fig \<and>
      map trace_x (fig_data fig) = replicate 3 (linspace 0 160 160)"
    unfolding eq using ys by (subst sird_figure_rows) (simp_all add: numeral_3_eq_3)
  from slird_update_graph_odeint [of beta rho delta alpha lambda gamma] obtain zs
    where zs: "length zs = 159" "\<forall>row\<in>set zs. length row = 4"
      and eq': "slird_update_graph odeint beta rho delta alpha lambda gamma =
        slird_figure (linspace 0 160 160) ([Fin (99 / 100), Fin 0, Fin (1 / 100), Fin 0] # zs)"
    by blast
  have slird: "\<exists>fig. slird_update_graph odeint beta rho delta alpha lambda gamma = Inr fig \<and>
      map trace_x (fig_data fig) = replicate 4 (linspace 0 160 160)"
    unfolding eq' using zs by (subst slird_figure_rows) (simp_all add: eval_nat_numeral)
  have len: "length (linspace 0 160 160) = 160" by simp
  have h: "hd (linspace 0 160 160) = 0" by (simp add: hd_linspace)
  have l: "last (linspace 0 160 160) = 160" by (simp add: last_linspace)
  have srt: "sorted_wrt (<) (linspace 0 160 160)" using grid_ok by simp
  show ?thesis
    by (intro conjI) (rule len h l srt f d sird slird)+
qed




text \<open>
  Claim C8. For every request, and whatever integrator is used, the driver hands the
  integrator the fixed initial state of its variant, \<open>(0.99, 0.01, 0.0)\<close> for SIRD
  and \<open>(0.99, 0.0, 0.01, 0.0)\<close> for SLIRD, and in both variants the components of the
  initial state sum to exactly 1.
\<close>

theorem default_initial_condition:
  "sird_update_graph solver beta rho delta alpha lambda =
     (case solver (\<lambda>y t. sird_model y t beta rho delta alpha lambda)
             [Fin (99 / 100), Fin (1 / 100), Fin 0] (linspace 0 160 160) of
        Inl e \<Rightarrow> Inl e
      | Inr solution \<Rightarrow> sird_figure (linspace 0 160 160) solution) \<and>
   total [Fin (99 / 100), Fin (1 / 100), Fin 0] = Fin 1 \<and>
   slird_update_graph solver beta rho delta alpha lambda gamma =
     (case solver (\<lambda>y t. slird_model y t beta rho delta alpha lambda gamma)
             [Fin (99 / 100), Fin 0, Fin (1 / 100), Fin 0] (linspace 0 160 160) of
        Inl e \<Rightarrow> Inl e
      | Inr solution \<Rightarrow> slird_figure (linspace 0 160 160) solution) \<and>
   total [Fin (99 / 100), Fin 0, Fin (1 / 100), Fin 0] = Fin 1"
  by (simp add: sird_update_graph_def slird_update_graph_def total_def Let_def)

end
